theory Spec2Isabelle
  imports Complex_Main "HOL-Library.Word"
begin

unbundle bit_operations_syntax

section \<open>Transport receiver (meomic/audio\_receiver.py)\<close>

text \<open>
  The receiver is the class \<^verbatim>\<open>UdpAudioReceiver\<close>. Its attributes become a record, and
  every method takes the record and returns the updated one together with the list of
  things it did to the outside world, in the order it did them: callbacks invoked and
  datagrams handed to \<^verbatim>\<open>socket.sendto\<close>.

  \<^item> Bytes are \<open>8 word\<close>; Python's unbounded integers are \<open>int\<close>; the masks
    \<^verbatim>\<open>& 0xFFFFFFFF\<close> are kept as \<open>AND\<close> on \<open>int\<close>, which is two's complement on
    both sides.
  \<^item> \<^verbatim>\<open>time.time()\<close> is read twice in the handler; the two readings are arguments.
    They are Python floats, taken here as real numbers.
  \<^item> A callback attribute is \<open>True\<close> when a callable is registered and \<open>False\<close> when
    it is \<^verbatim>\<open>None\<close>; a registered callback is assumed to return normally.
  \<^item> The attribute \<open>socket\<close> is \<open>True\<close> when a socket object is held.
  \<^item> Console output (\<^verbatim>\<open>print\<close>) is not recorded.
\<close>

type_synonym byte = "8 word"
type_synonym address = "string \<times> nat"

datatype event =
    AudioData "byte list"
  | ClientConnected string
  | ClientDisconnected
  | SendTo "byte list" address

record receiver =
  socket :: bool
  on_audio_data :: bool
  on_client_connected :: bool
  on_client_disconnected :: bool
  client_address :: "address option"
  last_packet_time :: real
  last_ack_time :: real
  packets_received :: int
  last_sequence :: int
  packets_lost :: int
  ack_sequence :: int

definition MAGIC :: "byte list" where
  "MAGIC = [0x57, 0x4D]"

definition HEADER_SIZE :: nat where
  "HEADER_SIZE = 8"

definition AUDIO :: int where "AUDIO = 0"
definition KEEPALIVE :: int where "KEEPALIVE = 1"
definition DISCONNECT :: int where "DISCONNECT = 2"
definition ACK :: int where "ACK = 3"

text \<open>\<^verbatim>\<open>__init__\<close>, with no callback registered and no socket yet.\<close>

definition init_receiver :: receiver where
  "init_receiver =
     \<lparr>socket = False, on_audio_data = False, on_client_connected = False,
      on_client_disconnected = False, client_address = None, last_packet_time = 0,
      last_ack_time = 0, packets_received = 0, last_sequence = - 1, packets_lost = 0,
      ack_sequence = 0\<rparr>"

text \<open>
  \<^verbatim>\<open>struct.unpack('>I', bs)[0]\<close>: the big-endian value of the bytes. The handler calls
  it on \<^verbatim>\<open>data[4:8]\<close> after the length check, so on exactly four bytes.
\<close>

definition unpack_I :: "byte list \<Rightarrow> int" where
  "unpack_I bs = foldl (\<lambda>acc b. acc * 256 + uint b) 0 bs"

text \<open>The four big-endian bytes that \<^verbatim>\<open>struct.pack('>I', n)\<close> writes for \<open>0 \<le> n < 2^32\<close>.\<close>

definition pack_I :: "int \<Rightarrow> byte list" where
  "pack_I n = [word_of_int (n div 2 ^ 24), word_of_int (n div 2 ^ 16),
               word_of_int (n div 2 ^ 8), word_of_int n]"

text \<open>
  \<^verbatim>\<open>_send_ack\<close>. Nothing happens without a socket. \<^verbatim>\<open>struct.pack\<close> raises for a
  sequence outside the unsigned 32-bit range, and the \<^verbatim>\<open>except\<close> clause swallows that
  before the counter is incremented. A failing \<^verbatim>\<open>sendto\<close> is swallowed too, after the
  increment; the event records the call.
\<close>

definition send_ack :: "receiver \<Rightarrow> address \<Rightarrow> receiver \<times> event list" where
  "send_ack st addr =
     (if socket st then
        (if 0 \<le> ack_sequence st \<and> ack_sequence st < 2 ^ 32 then
           (st\<lparr>ack_sequence := (ack_sequence st + 1) AND 0xFFFFFFFF\<rparr>,
            [SendTo (MAGIC @ [1, word_of_int ACK] @ pack_I (ack_sequence st)) addr])
         else (st, []))
      else (st, []))"

text \<open>\<^verbatim>\<open>_handle_disconnect\<close>.\<close>

definition handle_disconnect :: "receiver \<Rightarrow> receiver \<times> event list" where
  "handle_disconnect st =
     (if client_address st \<noteq> None then
        (st\<lparr>client_address := None\<rparr>,
         if on_client_disconnected st then [ClientDisconnected] else [])
      else (st, []))"

text \<open>
  \<^verbatim>\<open>_handle_packet\<close> is one method; its body is cut here at the source's own comment
  lines. First ``Track new client connection'' (lines 121 to 128).
\<close>

definition track_new_client :: "receiver \<Rightarrow> address \<Rightarrow> receiver \<times> event list" where
  "track_new_client st addr =
     (if client_address st \<noteq> Some addr then
        (st\<lparr>client_address := Some addr, last_sequence := - 1, packets_lost := 0,
            packets_received := 0\<rparr>,
         if on_client_connected st then [ClientConnected (fst addr)] else [])
      else (st, []))"

text \<open>Lines 130 and 131.\<close>

definition count_packet :: "receiver \<Rightarrow> real \<Rightarrow> receiver" where
  "count_packet st now =
     st\<lparr>last_packet_time := now, packets_received := packets_received st + 1\<rparr>"

text \<open>``Track packet loss'' (lines 133 to 140).\<close>

definition track_packet_loss :: "receiver \<Rightarrow> int \<Rightarrow> receiver" where
  "track_packet_loss st sequence =
     (let st1 =
        (if last_sequence st \<ge> 0 then
           (let expected = (last_sequence st + 1) AND 0xFFFFFFFF in
            if sequence \<noteq> expected then
              (let lost = (sequence - expected) AND 0xFFFFFFFF in
               if lost < 1000 then st\<lparr>packets_lost := packets_lost st + lost\<rparr> else st)
            else st)
         else st)
      in st1\<lparr>last_sequence := sequence\<rparr>)"

text \<open>``Handle by packet type'' (lines 142 to 159). There is no final \<^verbatim>\<open>else\<close>.\<close>

definition handle_by_type ::
  "receiver \<Rightarrow> int \<Rightarrow> byte list \<Rightarrow> address \<Rightarrow> real \<Rightarrow> receiver \<times> event list" where
  "handle_by_type st packet_type data addr current_time =
     (if packet_type = AUDIO then
        (let audio_data = drop HEADER_SIZE data;
             ev1 = (if audio_data \<noteq> [] \<and> on_audio_data st then [AudioData audio_data] else [])
         in if current_time - last_ack_time st > 0.5 then
              (let (st1, ev2) = send_ack st addr
               in (st1\<lparr>last_ack_time := current_time\<rparr>, ev1 @ ev2))
            else (st, ev1))
      else if packet_type = KEEPALIVE then send_ack st addr
      else if packet_type = DISCONNECT then handle_disconnect st
      else (st, []))"

text \<open>
  The whole handler: \<open>now\<close> is the clock reading of line 130 and \<open>current_time\<close> that
  of line 149.
\<close>

definition handle_packet ::
  "receiver \<Rightarrow> byte list \<Rightarrow> address \<Rightarrow> real \<Rightarrow> real \<Rightarrow> receiver \<times> event list" where
  "handle_packet st data addr now current_time =
     (if length data < HEADER_SIZE then (st, [])
      else if take 2 data \<noteq> MAGIC then (st, [])
      else
        (let packet_type = uint (data ! 3);
             sequence = unpack_I (take 4 (drop 4 data));
             (st1, ev1) = track_new_client st addr;
             st2 = count_packet st1 now;
             st3 = track_packet_loss st2 sequence;
             (st4, ev2) = handle_by_type st3 packet_type data addr current_time
         in (st4, ev1 @ ev2)))"

text \<open>
  One turn of \<^verbatim>\<open>_receive_loop\<close>: either \<^verbatim>\<open>recvfrom\<close> returns a datagram, which can
  only happen on a socket that exists, or it times out and the five-second silence
  check runs.
\<close>

datatype recv_result =
    Datagram "byte list" address real real
  | Timeout real

fun receive_loop_step :: "receiver \<Rightarrow> recv_result \<Rightarrow> receiver \<times> event list" where
  "receive_loop_step st (Datagram data addr now current_time) =
     (if socket st then handle_packet st data addr now current_time else (st, []))"
| "receive_loop_step st (Timeout now) =
     (if client_address st \<noteq> None \<and> now - last_packet_time st > 5.0
      then handle_disconnect st else (st, []))"

text \<open>A run of the loop over the results of successive \<^verbatim>\<open>recvfrom\<close> calls.\<close>

fun receive_loop :: "receiver \<Rightarrow> recv_result list \<Rightarrow> receiver \<times> event list" where
  "receive_loop st [] = (st, [])"
| "receive_loop st (r # rs) =
     (let (st1, ev1) = receive_loop_step st r;
          (st2, ev2) = receive_loop st1 rs
      in (st2, ev1 @ ev2))"


text \<open>
  A run of \<^verbatim>\<open>recvfrom\<close> results that is a stream of well-formed packets from one
  address whose sequence numbers are \<open>s\<close>, \<open>s + 1\<close>, \<open>s + 2\<close>, ... modulo \<open>2^32\<close>:
  strictly consecutive, with no gap.
\<close>

fun consecutive_run :: "address \<Rightarrow> int \<Rightarrow> recv_result list \<Rightarrow> bool" where
  "consecutive_run addr s [] = True"
| "consecutive_run addr s (Datagram data a now current_time # rs) =
     (a = addr \<and> length data \<ge> HEADER_SIZE \<and> take 2 data = MAGIC \<and>
      unpack_I (take 4 (drop 4 data)) = s mod 2 ^ 32 \<and> consecutive_run addr (s + 1) rs)"
| "consecutive_run addr s (Timeout now # rs) = False"

text \<open>
  \<^verbatim>\<open>get_stats\<close>. Python's \<^verbatim>\<open>/\<close> on two integers raises \<^verbatim>\<open>ZeroDivisionError\<close> for a zero
  divisor and otherwise returns the quotient as a float, taken here as a real number.
\<close>

datatype py_error = ZeroDivisionError | ValueError

record stats =
  connected :: bool
  client_ip :: "string option"
  stats_packets_received :: int
  stats_packets_lost :: int
  loss_rate :: real

definition get_stats :: "receiver \<Rightarrow> py_error + stats" where
  "get_stats st =
     (let divisor = max 1 (packets_received st + packets_lost st)
      in if divisor = 0 then Inl ZeroDivisionError
         else Inr \<lparr>connected = (client_address st \<noteq> None),
                   client_ip = (case client_address st of None \<Rightarrow> None | Some a \<Rightarrow> Some (fst a)),
                   stats_packets_received = packets_received st,
                   stats_packets_lost = packets_lost st,
                   loss_rate = real_of_int (packets_lost st) / real_of_int divisor * 100\<rparr>)"

section \<open>Playback renderer (meomic/audio\_output.py)\<close>

text \<open>
  The renderer is the class \<^verbatim>\<open>AudioOutput\<close>. Samples are \<^verbatim>\<open>np.int16\<close>, here
  \<open>16 word\<close> read with \<open>sint\<close>. The buffer is the array \<^verbatim>\<open>self.buffer\<close>, here a list
  with the oldest sample first. \<^verbatim>\<open>write\<close>, \<^verbatim>\<open>_callback\<close>, \<^verbatim>\<open>start\<close> and \<^verbatim>\<open>stop\<close> touch
  the buffer only while they hold \<^verbatim>\<open>buffer_lock\<close>, so each of them acts on the buffer
  in one step.

  Volume and level are Python floats, here real numbers. The volume scaling of line
  130 runs in 32-bit floating point and is modelled with its rounding. The level of
  line 134 is a display value and is computed here without rounding.
\<close>

type_synonym int16 = "16 word"

record audio_output =
  output_device :: "int option"
  stream :: bool
  running :: bool
  buffer :: "int16 list"
  current_level :: real
  volume :: real

definition BUFFER_FRAMES :: nat where
  "BUFFER_FRAMES = 1024"

definition max_buffer :: nat where
  "max_buffer = 7200"

definition init_output :: audio_output where
  "init_output =
     \<lparr>output_device = None, stream = False, running = False, buffer = [],
      current_level = 0, volume = 1\<rparr>"

text \<open>
  \<^verbatim>\<open>np.frombuffer(audio_data, dtype=np.int16)\<close>: two bytes a sample, low byte first on
  the little-endian machines the program runs on; a byte string of odd length raises
  \<^verbatim>\<open>ValueError\<close>.
\<close>

fun int16_samples :: "byte list \<Rightarrow> int16 list" where
  "int16_samples (lo # hi # bs) = word_of_int (uint lo + 256 * uint hi) # int16_samples bs"
| "int16_samples _ = []"

definition frombuffer :: "byte list \<Rightarrow> py_error + int16 list" where
  "frombuffer audio_data =
     (if length audio_data mod 2 \<noteq> 0 then Inl ValueError else Inr (int16_samples audio_data))"

text \<open>
  Rounding to 32-bit floating point, as NumPy does after each \<^verbatim>\<open>float32\<close> operation:
  to the nearest value with a 24-bit significand, a tie going to the even
  significand, with the fixed spacing \<open>2^-149\<close> below \<open>2^-126\<close>. Overflow to
  infinity is left out: the volume is only ever assigned by \<^verbatim>\<open>__init__\<close> and
  \<^verbatim>\<open>set_volume\<close>, so it stays within 0 and 2 and a product within 65536 in size.
\<close>

definition pow2 :: "int \<Rightarrow> real" where
  "pow2 n = (if n \<ge> 0 then 2 ^ nat n else 1 / 2 ^ nat (- n))"

definition round_half_even :: "real \<Rightarrow> int" where
  "round_half_even x =
     (let f = \<lfloor>x\<rfloor>
      in if x - real_of_int f < 1 / 2 then f
         else if x - real_of_int f > 1 / 2 then f + 1
         else if even f then f else f + 1)"

definition float32 :: "real \<Rightarrow> real" where
  "float32 x =
     (if x = 0 then 0
      else
        (let e = max \<lfloor>log 2 \<bar>x\<bar>\<rfloor> (- 126);
             ulp = pow2 (e - 23)
         in real_of_int (round_half_even (x / ulp)) * ulp))"

text \<open>
  Line 130: \<^verbatim>\<open>(samples.astype(np.float32) * volume).clip(-32768, 32767).astype(np.int16)\<close>
  for one sample. The sample converts to \<^verbatim>\<open>float32\<close> exactly; the volume, a Python
  float, is rounded to \<^verbatim>\<open>float32\<close> and so is the product. \<^verbatim>\<open>clip\<close> is the minimum
  with the upper bound of the maximum with the lower bound; the conversion back to
  \<^verbatim>\<open>int16\<close> drops the fraction (towards zero).
\<close>

definition clip :: "real \<Rightarrow> real \<Rightarrow> real \<Rightarrow> real" where
  "clip x lo hi = min (max x lo) hi"

definition truncate :: "real \<Rightarrow> int" where
  "truncate x = (if x \<ge> 0 then \<lfloor>x\<rfloor> else \<lceil>x\<rceil>)"

definition apply_volume :: "real \<Rightarrow> int16 \<Rightarrow> int16" where
  "apply_volume v s =
     word_of_int
       (truncate (clip (float32 (real_of_int (sint s) * float32 v)) (- 32768) 32767))"

text \<open>Line 134: \<^verbatim>\<open>np.sqrt(np.mean(samples.astype(np.float32) ** 2))\<close>.\<close>

definition rms :: "int16 list \<Rightarrow> real" where
  "rms samples =
     sqrt ((\<Sum>s\<leftarrow>samples. (real_of_int (sint s))\<^sup>2) / real (length samples))"

text \<open>
  \<^verbatim>\<open>write\<close>, named \<open>write_audio\<close> here. The \<^verbatim>\<open>try\<close> block catches the
  \<^verbatim>\<open>ValueError\<close> of \<^verbatim>\<open>frombuffer\<close>, prints it and leaves the renderer as it was. \<^verbatim>\<open>self.buffer[-max_buffer:]\<close> on a buffer longer
  than \<^verbatim>\<open>max_buffer\<close> is its last \<^verbatim>\<open>max_buffer\<close> samples.
\<close>

definition write_audio :: "audio_output \<Rightarrow> byte list \<Rightarrow> audio_output" where
  "write_audio st audio_data =
     (if \<not> running st \<or> length audio_data = 0 then st
      else
        (case frombuffer audio_data of
           Inl e \<Rightarrow> st
         | Inr samples0 \<Rightarrow>
             (let samples = (if volume st \<noteq> 1.0 then map (apply_volume (volume st)) samples0
                             else samples0);
                  st1 = (if length samples > 0
                         then st\<lparr>current_level := min 1.0 (rms samples / 10000.0)\<rparr>
                         else st);
                  buf = buffer st1 @ samples
              in if length buf > max_buffer
                 then st1\<lparr>buffer := drop (length buf - max_buffer) buf\<rparr>
                 else st1\<lparr>buffer := buf\<rparr>)))"

text \<open>
  \<^verbatim>\<open>_callback\<close>. The device hands over \<^verbatim>\<open>outdata\<close>, an array of \<open>frames\<close> rows, to
  be filled; the model returns the filled column. In the second branch the inner test
  \<^verbatim>\<open>available > 0\<close> is always true, so its \<^verbatim>\<open>else\<close> is not reached.
\<close>

definition callback :: "audio_output \<Rightarrow> nat \<Rightarrow> audio_output \<times> int16 list" where
  "callback st frames =
     (let available = length (buffer st) in
      if available \<ge> frames then
        (st\<lparr>buffer := drop frames (buffer st)\<rparr>, take frames (buffer st))
      else if available > 0 then
        (st\<lparr>buffer := []\<rparr>,
         buffer st @ replicate (frames - available)
                       (if available > 0 then last (buffer st) else 0))
      else
        (st\<lparr>current_level := 0.0\<rparr>, replicate frames 0))"

text \<open>\<^verbatim>\<open>get_level\<close> and \<^verbatim>\<open>set_volume\<close>.\<close>

definition get_level :: "audio_output \<Rightarrow> real" where
  "get_level st = current_level st"

definition set_volume :: "audio_output \<Rightarrow> real \<Rightarrow> audio_output" where
  "set_volume st v = st\<lparr>volume := max 0.0 (min 2.0 v)\<rparr>"

text \<open>
  \<^verbatim>\<open>start\<close>, \<^verbatim>\<open>stop\<close> and \<^verbatim>\<open>set_output_device\<close>. What the host audio library does
  when \<^verbatim>\<open>start\<close> opens the device stream is an argument: the stream is created and
  started; or creating it raises, before \<^verbatim>\<open>self.stream\<close> is assigned; or it is
  created and a later call in the \<^verbatim>\<open>try\<close> block raises. The \<^verbatim>\<open>except\<close> clause leaves
  \<open>running\<close> false in both failing cases.
\<close>

datatype open_result = Opened | CreateFailed | StartFailed

definition start :: "audio_output \<Rightarrow> open_result \<Rightarrow> audio_output" where
  "start st res =
     (if running st then st
      else
        (let st1 = st\<lparr>buffer := []\<rparr>
         in case res of
              Opened \<Rightarrow> st1\<lparr>stream := True, running := True\<rparr>
            | CreateFailed \<Rightarrow> st1\<lparr>running := False\<rparr>
            | StartFailed \<Rightarrow> st1\<lparr>stream := True, running := False\<rparr>))"

definition stop :: "audio_output \<Rightarrow> audio_output" where
  "stop st = st\<lparr>running := False, stream := False, buffer := [], current_level := 0.0\<rparr>"

definition set_output_device ::
  "audio_output \<Rightarrow> int option \<Rightarrow> open_result \<Rightarrow> audio_output" where
  "set_output_device st device_id res =
     (let was_running = running st;
          st1 = (if was_running then stop st else st);
          st2 = st1\<lparr>output_device := device_id\<rparr>
      in if was_running then start st2 res else st2)"

text \<open>The calls the application and the device make on the renderer.\<close>

datatype output_call =
    Start open_result
  | Stop
  | Write "byte list"
  | Pull nat
  | SetVolume real
  | SetOutputDevice "int option" open_result

fun do_call :: "audio_output \<Rightarrow> output_call \<Rightarrow> audio_output" where
  "do_call st (Start res) = start st res"
| "do_call st Stop = stop st"
| "do_call st (Write audio_data) = write_audio st audio_data"
| "do_call st (Pull frames) = fst (callback st frames)"
| "do_call st (SetVolume v) = set_volume st v"
| "do_call st (SetOutputDevice device_id res) = set_output_device st device_id res"

section \<open>Properties of the receiver\<close>

subsection \<open>Arithmetic of the header fields\<close>

lemma and_mask32: "(x::int) AND 0xFFFFFFFF = x mod 2 ^ 32"
proof -
  have "(0xFFFFFFFF::int) = mask 32"
    by (simp add: mask_eq_exp_minus_1)
  then show ?thesis
    by (simp only: flip: take_bit_eq_mask take_bit_eq_mod)
qed

subsection \<open>Malformed datagrams\<close>

text \<open>
  Claim C6. A datagram shorter than the 8-byte header, or one whose first two bytes are
  not the magic constant, makes the packet handler return at once: the receiver it
  returns is the receiver it was given, every attribute included (\<open>client_address\<close>,
  \<open>last_sequence\<close>, \<open>packets_received\<close>, \<open>packets_lost\<close>, \<open>last_packet_time\<close>), no
  callback is invoked and nothing is sent.
\<close>

theorem malformed_packet_discarded:
  "length data < 8 \<or> take 2 data \<noteq> MAGIC \<Longrightarrow>
   handle_packet st data addr now current_time = (st, [])"
  by (auto simp: handle_packet_def HEADER_SIZE_def)

theorem malformed_packet_discarded_witness:
  "(length [0x57, 0x4D, 1 :: byte] < 8 \<or> take 2 [0x57, 0x4D, 1 :: byte] \<noteq> MAGIC) \<and>
   handle_packet init_receiver [0x57, 0x4D, 1] (''10.0.0.2'', 5000) 1 1 = (init_receiver, [])"
  using malformed_packet_discarded [of "[0x57, 0x4D, 1]" init_receiver "(''10.0.0.2'', 5000)" 1 1]
  by simp

subsection \<open>What each part of the handler leaves alone\<close>

lemma send_ack_keeps [simp]:
  "packets_lost (fst (send_ack st addr)) = packets_lost st"
  "last_sequence (fst (send_ack st addr)) = last_sequence st"
  "packets_received (fst (send_ack st addr)) = packets_received st"
  "client_address (fst (send_ack st addr)) = client_address st"
  "last_packet_time (fst (send_ack st addr)) = last_packet_time st"
  "socket (fst (send_ack st addr)) = socket st"
  by (simp_all add: send_ack_def)

lemma handle_disconnect_keeps [simp]:
  "packets_lost (fst (handle_disconnect st)) = packets_lost st"
  "last_sequence (fst (handle_disconnect st)) = last_sequence st"
  "packets_received (fst (handle_disconnect st)) = packets_received st"
  "last_packet_time (fst (handle_disconnect st)) = last_packet_time st"
  "socket (fst (handle_disconnect st)) = socket st"
  "ack_sequence (fst (handle_disconnect st)) = ack_sequence st"
  by (simp_all add: handle_disconnect_def)

lemma handle_by_type_keeps [simp]:
  "packets_lost (fst (handle_by_type st ty data addr ct)) = packets_lost st"
  "last_sequence (fst (handle_by_type st ty data addr ct)) = last_sequence st"
  "packets_received (fst (handle_by_type st ty data addr ct)) = packets_received st"
  "last_packet_time (fst (handle_by_type st ty data addr ct)) = last_packet_time st"
  "socket (fst (handle_by_type st ty data addr ct)) = socket st"
  by (simp_all add: handle_by_type_def Let_def split_beta)


lemma handle_packet_valid:
  assumes "length data \<ge> HEADER_SIZE" "take 2 data = MAGIC"
  shows "handle_packet st data addr now ct =
     (fst (handle_by_type
             (track_packet_loss (count_packet (fst (track_new_client st addr)) now)
                (unpack_I (take 4 (drop 4 data))))
             (uint (data ! 3)) data addr ct),
      snd (track_new_client st addr) @
      snd (handle_by_type
             (track_packet_loss (count_packet (fst (track_new_client st addr)) now)
                (unpack_I (take 4 (drop 4 data))))
             (uint (data ! 3)) data addr ct))"
  using assms by (simp add: handle_packet_def Let_def split_beta)

lemma track_packet_loss_eq:
  "track_packet_loss st s =
     st\<lparr>packets_lost := packets_lost st +
           (if last_sequence st \<ge> 0 \<and> (s - (last_sequence st + 1) mod 2 ^ 32) mod 2 ^ 32 < 1000
            then (s - (last_sequence st + 1) mod 2 ^ 32) mod 2 ^ 32 else 0),
        last_sequence := s\<rparr>"
  by (simp add: track_packet_loss_def Let_def and_mask32)

lemma track_new_client_same [simp]:
  "client_address st = Some addr \<Longrightarrow> track_new_client st addr = (st, [])"
  by (simp add: track_new_client_def)

subsection \<open>Loss accounting\<close>

lemma consecutive_run_take: "consecutive_run addr s rs \<Longrightarrow> consecutive_run addr s (take n rs)"
proof (induction rs arbitrary: s n)
  case Nil
  then show ?case by simp
next
  case (Cons r rs)
  then show ?case
    by (cases n; cases r) auto
qed

lemma consecutive_step:
  assumes valid: "length data \<ge> HEADER_SIZE" "take 2 data = MAGIC"
    and seq: "unpack_I (take 4 (drop 4 data)) = s mod 2 ^ 32"
    and lost: "packets_lost st = 0"
    and exp: "client_address st = Some addr \<and> last_sequence st \<ge> 0 \<longrightarrow>
              s mod 2 ^ 32 = (last_sequence st + 1) mod 2 ^ 32"
  shows "packets_lost (fst (handle_packet st data addr now ct)) = 0 \<and>
         last_sequence (fst (handle_packet st data addr now ct)) = s mod 2 ^ 32"
proof (cases "client_address st = Some addr")
  case True
  with valid seq lost exp show ?thesis
    by (simp add: handle_packet_valid track_packet_loss_eq count_packet_def)
next
  case False
  with valid seq show ?thesis
    by (simp add: handle_packet_valid track_packet_loss_eq count_packet_def track_new_client_def)
qed

lemma handle_packet_socket [simp]:
  "socket (fst (handle_packet st data addr now ct)) = socket st"
  by (simp add: handle_packet_def Let_def split_beta track_packet_loss_eq count_packet_def
      track_new_client_def)

lemma consecutive_run_no_loss:
  assumes "consecutive_run addr s rs" and "socket st" and "packets_lost st = 0"
    and "client_address st = Some addr \<and> last_sequence st \<ge> 0 \<longrightarrow>
         s mod 2 ^ 32 = (last_sequence st + 1) mod 2 ^ 32"
  shows "packets_lost (fst (receive_loop st rs)) = 0"
  using assms
proof (induction rs arbitrary: st s)
  case Nil
  then show ?case by simp
next
  case (Cons r rs)
  from Cons.prems(1) obtain data now ct where r: "r = Datagram data addr now ct"
    and valid: "length data \<ge> HEADER_SIZE" "take 2 data = MAGIC"
    and seq: "unpack_I (take 4 (drop 4 data)) = s mod 2 ^ 32"
    and rest: "consecutive_run addr (s + 1) rs"
    by (cases r) auto
  let ?st1 = "fst (handle_packet st data addr now ct)"
  have step: "packets_lost ?st1 = 0" "last_sequence ?st1 = s mod 2 ^ 32"
    using consecutive_step [OF valid seq Cons.prems(3) Cons.prems(4)] by simp_all
  have "(s + 1) mod 2 ^ 32 = (last_sequence ?st1 + 1) mod 2 ^ 32"
    by (simp add: step mod_simps)
  moreover have "socket ?st1"
    using Cons.prems(2) by simp
  ultimately have "packets_lost (fst (receive_loop ?st1 rs)) = 0"
    using Cons.IH [OF rest _ step(1)] by blast
  then show ?case
    using Cons.prems(2) by (simp add: r split_beta)
qed

text \<open>
  Claim C1. Take a connection whose \<open>last_sequence\<close> is set and a well-formed packet
  from its address with sequence \<open>s\<close>. With \<open>expected = (last_sequence + 1) mod 2^32\<close>
  and \<open>gap = (s - expected) mod 2^32\<close>, the handler adds exactly \<open>gap\<close> to
  \<open>packets_lost\<close> when \<open>0 < gap < 1000\<close>, leaves \<open>packets_lost\<close> alone when
  \<open>gap \<ge> 1000\<close> (and when \<open>gap = 0\<close>), and sets \<open>last_sequence\<close> to \<open>s\<close> in every
  case. Along a run of packets with strictly consecutive sequence numbers, started on
  a connection without loss, \<open>packets_lost\<close> is 0 after every packet of the run.
\<close>

theorem loss_accounting:
  "(length data \<ge> HEADER_SIZE \<and> take 2 data = MAGIC \<and>
    client_address st = Some addr \<and> last_sequence st \<ge> 0 \<longrightarrow>
      (let s = unpack_I (take 4 (drop 4 data));
           expected = (last_sequence st + 1) mod 2 ^ 32;
           gap = (s - expected) mod 2 ^ 32;
           st' = fst (handle_packet st data addr now current_time)
       in (0 < gap \<and> gap < 1000 \<longrightarrow> packets_lost st' = packets_lost st + gap) \<and>
          (gap = 0 \<or> gap \<ge> 1000 \<longrightarrow> packets_lost st' = packets_lost st) \<and>
          last_sequence st' = s)) \<and>
   (consecutive_run addr s0 rs \<and> socket st0 \<and> packets_lost st0 = 0 \<and>
    (client_address st0 = Some addr \<and> last_sequence st0 \<ge> 0 \<longrightarrow>
       s0 mod 2 ^ 32 = (last_sequence st0 + 1) mod 2 ^ 32) \<longrightarrow>
      (\<forall>n \<le> length rs. packets_lost (fst (receive_loop st0 (take n rs))) = 0))"
proof (intro conjI impI allI)
  assume "length data \<ge> HEADER_SIZE \<and> take 2 data = MAGIC \<and>
    client_address st = Some addr \<and> last_sequence st \<ge> 0"
  then show "let s = unpack_I (take 4 (drop 4 data));
           expected = (last_sequence st + 1) mod 2 ^ 32;
           gap = (s - expected) mod 2 ^ 32;
           st' = fst (handle_packet st data addr now current_time)
       in (0 < gap \<and> gap < 1000 \<longrightarrow> packets_lost st' = packets_lost st + gap) \<and>
          (gap = 0 \<or> gap \<ge> 1000 \<longrightarrow> packets_lost st' = packets_lost st) \<and>
          last_sequence st' = s"
    by (simp add: handle_packet_valid track_packet_loss_eq count_packet_def Let_def)
next
  fix n
  assume h: "consecutive_run addr s0 rs \<and> socket st0 \<and> packets_lost st0 = 0 \<and>
    (client_address st0 = Some addr \<and> last_sequence st0 \<ge> 0 \<longrightarrow>
       s0 mod 2 ^ 32 = (last_sequence st0 + 1) mod 2 ^ 32)"
  then have "consecutive_run addr s0 (take n rs)"
    by (simp add: consecutive_run_take)
  with h show "packets_lost (fst (receive_loop st0 (take n rs))) = 0"
    by (intro consecutive_run_no_loss [of addr s0]) simp_all
qed


text \<open>The definitions needed to run the handler on a concrete datagram.\<close>

lemmas receiver_eval =
  handle_packet_def track_new_client_def count_packet_def track_packet_loss_def
  handle_by_type_def send_ack_def handle_disconnect_def init_receiver_def
  HEADER_SIZE_def MAGIC_def AUDIO_def KEEPALIVE_def DISCONNECT_def ACK_def
  unpack_I_def pack_I_def Let_def

text \<open>
  The theorem at work: a gap of 3 after sequence 5, and a run of three packets whose
  sequence numbers wrap from \<open>2^32 - 1\<close> to 0.
\<close>

theorem loss_accounting_witness:
  "length [0x57, 0x4D, 1, 0, 0, 0, 0, 9 :: byte] \<ge> HEADER_SIZE \<and>
   take 2 [0x57, 0x4D, 1, 0, 0, 0, 0, 9 :: byte] = MAGIC \<and>
   packets_lost
     (fst (handle_packet
        (init_receiver\<lparr>socket := True, client_address := Some (''10.0.0.2'', 5000),
           last_sequence := 5, packets_lost := 2\<rparr>)
        [0x57, 0x4D, 1, 0, 0, 0, 0, 9] (''10.0.0.2'', 5000) 1 1)) = 5 \<and>
   last_sequence
     (fst (handle_packet
        (init_receiver\<lparr>socket := True, client_address := Some (''10.0.0.2'', 5000),
           last_sequence := 5, packets_lost := 2\<rparr>)
        [0x57, 0x4D, 1, 0, 0, 0, 0, 9] (''10.0.0.2'', 5000) 1 1)) = 9 \<and>
   consecutive_run (''10.0.0.2'', 5000) 4294967295
     [Datagram [0x57, 0x4D, 1, 0, 255, 255, 255, 255, 7, 0] (''10.0.0.2'', 5000) 1 1,
      Datagram [0x57, 0x4D, 1, 1, 0, 0, 0, 0] (''10.0.0.2'', 5000) 2 2,
      Datagram [0x57, 0x4D, 1, 0, 0, 0, 0, 1, 7, 0] (''10.0.0.2'', 5000) 3 3] \<and>
   packets_lost
     (fst (receive_loop (init_receiver\<lparr>socket := True\<rparr>)
        [Datagram [0x57, 0x4D, 1, 0, 255, 255, 255, 255, 7, 0] (''10.0.0.2'', 5000) 1 1,
         Datagram [0x57, 0x4D, 1, 1, 0, 0, 0, 0] (''10.0.0.2'', 5000) 2 2,
         Datagram [0x57, 0x4D, 1, 0, 0, 0, 0, 1, 7, 0] (''10.0.0.2'', 5000) 3 3])) = 0"
  using loss_accounting [where data = "[0x57, 0x4D, 1, 0, 0, 0, 0, 9]"
      and st = "init_receiver\<lparr>socket := True, client_address := Some (''10.0.0.2'', 5000),
           last_sequence := 5, packets_lost := 2\<rparr>"
      and addr = "(''10.0.0.2'', 5000)" and now = 1 and current_time = 1
      and ?s0.0 = 4294967295 and ?st0.0 = "init_receiver\<lparr>socket := True\<rparr>"
      and rs = "[Datagram [0x57, 0x4D, 1, 0, 255, 255, 255, 255, 7, 0] (''10.0.0.2'', 5000) 1 1,
         Datagram [0x57, 0x4D, 1, 1, 0, 0, 0, 0] (''10.0.0.2'', 5000) 2 2,
         Datagram [0x57, 0x4D, 1, 0, 0, 0, 0, 1, 7, 0] (''10.0.0.2'', 5000) 3 3]"]
  by (simp add: receiver_eval)


subsection \<open>Packets of unknown type\<close>

text \<open>
  Claim C3 says that a well-formed packet of unknown type changes no connection state
  and fires no event. The handler looks at the type only after its bookkeeping. Here
  a packet of type 9 with sequence 7 reaches a connection that last saw sequence 4:
  \<open>packets_received\<close> goes from 5 to 6, \<open>packets_lost\<close> from 0 to 2,
  \<open>last_sequence\<close> to 7 and \<open>last_packet_time\<close> to the clock reading. The same
  packet from an address that is not connected opens a connection and fires the
  client-connected event.
\<close>

theorem unknown_type_counterexample:
  "length [0x57, 0x4D, 1, 9, 0, 0, 0, 7 :: byte] \<ge> 8 \<and>
   take 2 [0x57, 0x4D, 1, 9, 0, 0, 0, 7 :: byte] = MAGIC \<and>
   uint ([0x57, 0x4D, 1, 9, 0, 0, 0, 7 :: byte] ! 3) \<notin> {0, 1, 2, 3} \<and>
   handle_packet
     (init_receiver\<lparr>socket := True, on_client_connected := True,
        client_address := Some (''10.0.0.2'', 5000), packets_received := 5,
        last_sequence := 4\<rparr>)
     [0x57, 0x4D, 1, 9, 0, 0, 0, 7] (''10.0.0.2'', 5000) 7 7 =
   (init_receiver\<lparr>socket := True, on_client_connected := True,
        client_address := Some (''10.0.0.2'', 5000), packets_received := 6,
        last_sequence := 7, packets_lost := 2, last_packet_time := 7\<rparr>, []) \<and>
   handle_packet (init_receiver\<lparr>socket := True, on_client_connected := True\<rparr>)
     [0x57, 0x4D, 1, 9, 0, 0, 0, 7] (''10.0.0.2'', 5000) 7 7 =
   (init_receiver\<lparr>socket := True, on_client_connected := True,
        client_address := Some (''10.0.0.2'', 5000), packets_received := 1,
        last_sequence := 7, last_packet_time := 7\<rparr>, [ClientConnected ''10.0.0.2''])"
  by (simp add: receiver_eval)

text \<open>
  Claim C3 as amended. A well-formed packet whose type is none of AUDIO, KEEPALIVE and
  DISCONNECT gets the bookkeeping of every well-formed packet and nothing else: a
  sender address other than the current one opens a new connection (with its
  client-connected event), \<open>last_packet_time\<close> and \<open>packets_received\<close> are updated,
  the loss accounting runs and \<open>last_sequence\<close> becomes the packet's sequence; no
  audio is delivered, no acknowledgement is sent, the connection is not closed and
  there is no error.
\<close>

theorem unknown_type_counted_not_dispatched:
  assumes "length data \<ge> HEADER_SIZE" and "take 2 data = MAGIC"
    and "uint (data ! 3) \<notin> {AUDIO, KEEPALIVE, DISCONNECT}"
  shows "handle_packet st data addr now current_time =
           (track_packet_loss (count_packet (fst (track_new_client st addr)) now)
              (unpack_I (take 4 (drop 4 data))),
            snd (track_new_client st addr)) \<and>
         snd (handle_packet st data addr now current_time) =
           (if client_address st \<noteq> Some addr \<and> on_client_connected st
            then [ClientConnected (fst addr)] else []) \<and>
         packets_received (fst (handle_packet st data addr now current_time)) =
           (if client_address st = Some addr then packets_received st else 0) + 1 \<and>
         last_packet_time (fst (handle_packet st data addr now current_time)) = now \<and>
         last_sequence (fst (handle_packet st data addr now current_time)) =
           unpack_I (take 4 (drop 4 data)) \<and>
         client_address (fst (handle_packet st data addr now current_time)) = Some addr \<and>
         ack_sequence (fst (handle_packet st data addr now current_time)) = ack_sequence st \<and>
         last_ack_time (fst (handle_packet st data addr now current_time)) = last_ack_time st"
  using assms
  by (simp add: handle_packet_valid handle_by_type_def track_packet_loss_eq count_packet_def
      track_new_client_def)

text \<open>
  A packet of type 9 from an unconnected address.
\<close>

theorem unknown_type_counted_not_dispatched_witness:
  "length [0x57, 0x4D, 1, 9, 0, 0, 0, 7 :: byte] \<ge> HEADER_SIZE \<and>
   take 2 [0x57, 0x4D, 1, 9, 0, 0, 0, 7 :: byte] = MAGIC \<and>
   uint ([0x57, 0x4D, 1, 9, 0, 0, 0, 7 :: byte] ! 3) \<notin> {AUDIO, KEEPALIVE, DISCONNECT} \<and>
   snd (handle_packet (init_receiver\<lparr>socket := True, on_client_connected := True\<rparr>)
     [0x57, 0x4D, 1, 9, 0, 0, 0, 7] (''10.0.0.2'', 5000) 7 7) = [ClientConnected ''10.0.0.2''] \<and>
   packets_received (fst (handle_packet (init_receiver\<lparr>socket := True, on_client_connected := True\<rparr>)
     [0x57, 0x4D, 1, 9, 0, 0, 0, 7] (''10.0.0.2'', 5000) 7 7)) = 1 \<and>
   last_sequence (fst (handle_packet (init_receiver\<lparr>socket := True, on_client_connected := True\<rparr>)
     [0x57, 0x4D, 1, 9, 0, 0, 0, 7] (''10.0.0.2'', 5000) 7 7)) = 7"
  using unknown_type_counted_not_dispatched
    [of "[0x57, 0x4D, 1, 9, 0, 0, 0, 7]"
        "init_receiver\<lparr>socket := True, on_client_connected := True\<rparr>"
        "(''10.0.0.2'', 5000)" 7 7]
  by (simp add: receiver_eval)

subsection \<open>New connections\<close>




subsection \<open>KEEPALIVE packets\<close>

text \<open>
  Claim C8 says that a KEEPALIVE packet leaves \<open>packets_lost\<close> unchanged whatever its
  sequence number. The loss accounting runs before the packet type is looked at: a
  KEEPALIVE with sequence 10 on a connection that last saw sequence 5 adds 4.
\<close>

theorem keepalive_loss_counterexample:
  "length [0x57, 0x4D, 1, 1, 0, 0, 0, 10 :: byte] \<ge> 8 \<and>
   take 2 [0x57, 0x4D, 1, 1, 0, 0, 0, 10 :: byte] = MAGIC \<and>
   uint ([0x57, 0x4D, 1, 1, 0, 0, 0, 10 :: byte] ! 3) = KEEPALIVE \<and>
   packets_lost (init_receiver\<lparr>socket := True, client_address := Some (''10.0.0.2'', 5000),
        packets_received := 6, last_sequence := 5\<rparr>) = 0 \<and>
   packets_lost
     (fst (handle_packet
        (init_receiver\<lparr>socket := True, client_address := Some (''10.0.0.2'', 5000),
           packets_received := 6, last_sequence := 5\<rparr>)
        [0x57, 0x4D, 1, 1, 0, 0, 0, 10] (''10.0.0.2'', 5000) 7 7)) = 4"
  by (simp add: receiver_eval)

text \<open>
  Claim C8 as amended. A KEEPALIVE packet from the current connection, received on an
  open socket, is answered at once with one ACK to the sender, carrying the outgoing
  counter, which then advances modulo \<open>2^32\<close>. The KEEPALIVE branch itself does not
  touch \<open>packets_lost\<close>; the packet's sequence number goes through the loss
  accounting common to all well-formed packets, so \<open>packets_lost\<close> grows by the gap
  when \<open>last_sequence\<close> is set and the gap is below 1000, and not otherwise.
\<close>

theorem keepalive_ack_and_loss:
  assumes "length data \<ge> HEADER_SIZE" and "take 2 data = MAGIC"
    and "uint (data ! 3) = KEEPALIVE" and "client_address st = Some addr"
    and "socket st" and "0 \<le> ack_sequence st" and "ack_sequence st < 2 ^ 32"
  shows "snd (handle_packet st data addr now current_time) =
           [SendTo (MAGIC @ [1, 3] @ pack_I (ack_sequence st)) addr] \<and>
         ack_sequence (fst (handle_packet st data addr now current_time)) =
           (ack_sequence st + 1) mod 2 ^ 32 \<and>
         packets_lost (fst (handle_by_type st KEEPALIVE data addr current_time)) =
           packets_lost st \<and>
         packets_lost (fst (handle_packet st data addr now current_time)) =
           packets_lost st +
           (let gap = (unpack_I (take 4 (drop 4 data)) - (last_sequence st + 1) mod 2 ^ 32)
                        mod 2 ^ 32
            in if last_sequence st \<ge> 0 \<and> gap < 1000 then gap else 0)"
  using assms
  by (simp add: handle_packet_valid handle_by_type_def send_ack_def track_packet_loss_eq
      count_packet_def and_mask32 KEEPALIVE_def AUDIO_def ACK_def Let_def)

text \<open>
  A KEEPALIVE with the expected sequence: one ACK numbered 258, no loss.
\<close>

theorem keepalive_ack_and_loss_witness:
  "length [0x57, 0x4D, 1, 1, 0, 0, 0, 6 :: byte] \<ge> HEADER_SIZE \<and>
   take 2 [0x57, 0x4D, 1, 1, 0, 0, 0, 6 :: byte] = MAGIC \<and>
   uint ([0x57, 0x4D, 1, 1, 0, 0, 0, 6 :: byte] ! 3) = KEEPALIVE \<and>
   handle_packet
     (init_receiver\<lparr>socket := True, client_address := Some (''10.0.0.2'', 5000),
        packets_received := 6, last_sequence := 5, ack_sequence := 258\<rparr>)
     [0x57, 0x4D, 1, 1, 0, 0, 0, 6] (''10.0.0.2'', 5000) 7 7 =
   (init_receiver\<lparr>socket := True, client_address := Some (''10.0.0.2'', 5000),
        packets_received := 7, last_sequence := 6, ack_sequence := 259,
        last_packet_time := 7\<rparr>,
    [SendTo [0x57, 0x4D, 1, 3, 0, 0, 1, 2] (''10.0.0.2'', 5000)])"
  using keepalive_ack_and_loss
    [of "[0x57, 0x4D, 1, 1, 0, 0, 0, 6]"
        "init_receiver\<lparr>socket := True, client_address := Some (''10.0.0.2'', 5000),
        packets_received := 6, last_sequence := 5, ack_sequence := 258\<rparr>"
        "(''10.0.0.2'', 5000)" 7 7]
  by (simp add: receiver_eval)

subsection \<open>Statistics\<close>

lemma handle_packet_counters:
  assumes "0 \<le> packets_received st" and "0 \<le> packets_lost st"
  shows "0 \<le> packets_received (fst (handle_packet st data addr now ct)) \<and>
         0 \<le> packets_lost (fst (handle_packet st data addr now ct))"
proof (cases "length data \<ge> HEADER_SIZE \<and> take 2 data = MAGIC")
  case True
  then show ?thesis
    using assms
    by (simp add: handle_packet_valid track_packet_loss_eq count_packet_def track_new_client_def)
next
  case False
  then show ?thesis
    using assms by (auto simp: handle_packet_def)
qed

lemma receive_loop_step_counters:
  assumes "0 \<le> packets_received st" and "0 \<le> packets_lost st"
  shows "0 \<le> packets_received (fst (receive_loop_step st r)) \<and>
         0 \<le> packets_lost (fst (receive_loop_step st r))"
proof (cases r)
  case (Datagram data addr now ct)
  then show ?thesis
    using assms handle_packet_counters [OF assms] by simp
next
  case (Timeout now)
  then show ?thesis
    using assms by simp
qed

lemma receive_loop_counters:
  assumes "0 \<le> packets_received st" and "0 \<le> packets_lost st"
  shows "0 \<le> packets_received (fst (receive_loop st rs)) \<and>
         0 \<le> packets_lost (fst (receive_loop st rs))"
  using assms
proof (induction rs arbitrary: st)
  case Nil
  then show ?case by simp
next
  case (Cons r rs)
  from receive_loop_step_counters [OF Cons.prems]
  have "0 \<le> packets_received (fst (receive_loop_step st r))"
    and "0 \<le> packets_lost (fst (receive_loop_step st r))"
    by simp_all
  then show ?case
    using Cons.IH [of "fst (receive_loop_step st r)"] by (simp add: split_beta)
qed

lemma loss_rate_bounds:
  assumes "0 \<le> r" and "0 \<le> l"
  shows "0 \<le> real_of_int l / real_of_int (max 1 (r + l)) * 100 \<and>
         real_of_int l / real_of_int (max 1 (r + l)) * 100 \<le> 100"
proof -
  define q where "q = real_of_int l / real_of_int (max 1 (r + l))"
  have d: "0 < real_of_int (max 1 (r + l))"
    by simp
  have "real_of_int l \<le> real_of_int (max 1 (r + l))"
    using assms by simp
  then have "q \<le> 1"
    unfolding q_def using d by (simp only: divide_le_eq_1_pos)
  moreover have "0 \<le> q"
    unfolding q_def using assms by simp
  ultimately have "0 \<le> q * 100 \<and> q * 100 \<le> 100"
    by simp
  then show ?thesis
    unfolding q_def .
qed

lemma get_stats_Inr:
  "get_stats st =
     Inr \<lparr>connected = (client_address st \<noteq> None),
          client_ip = (case client_address st of None \<Rightarrow> None | Some a \<Rightarrow> Some (fst a)),
          stats_packets_received = packets_received st,
          stats_packets_lost = packets_lost st,
          loss_rate = real_of_int (packets_lost st) /
                      real_of_int (max 1 (packets_received st + packets_lost st)) * 100\<rparr>"
  by (simp add: get_stats_def Let_def)

text \<open>
  Claim C10. \<^verbatim>\<open>get_stats\<close> always returns a snapshot: the divisor
  \<open>max 1 (packets_received + packets_lost)\<close> is never zero. When both counters are
  non-negative, the loss rate lies between 0 and 100; that is so in every state the
  receive loop reaches from the initial one.
\<close>

theorem get_stats_total_and_bounded:
  "(\<exists>s. get_stats st = Inr s \<and>
        (0 \<le> packets_received st \<and> 0 \<le> packets_lost st \<longrightarrow>
           0 \<le> loss_rate s \<and> loss_rate s \<le> 100)) \<and>
   (\<exists>s. get_stats
          (fst (receive_loop
             (init_receiver\<lparr>socket := sk, on_audio_data := c1, on_client_connected := c2,
                on_client_disconnected := c3\<rparr>) rs)) = Inr s \<and>
        0 \<le> loss_rate s \<and> loss_rate s \<le> 100)"
proof
  show "\<exists>s. get_stats st = Inr s \<and>
        (0 \<le> packets_received st \<and> 0 \<le> packets_lost st \<longrightarrow>
           0 \<le> loss_rate s \<and> loss_rate s \<le> 100)"
    using loss_rate_bounds [of "packets_received st" "packets_lost st"]
    by (simp add: get_stats_Inr)
next
  let ?st0 = "init_receiver\<lparr>socket := sk, on_audio_data := c1, on_client_connected := c2,
                on_client_disconnected := c3\<rparr>"
  have "0 \<le> packets_received ?st0" "0 \<le> packets_lost ?st0"
    by (simp_all add: init_receiver_def)
  from receive_loop_counters [OF this, of rs]
  show "\<exists>s. get_stats (fst (receive_loop ?st0 rs)) = Inr s \<and>
        0 \<le> loss_rate s \<and> loss_rate s \<le> 100"
    using loss_rate_bounds
      [of "packets_received (fst (receive_loop ?st0 rs))"
          "packets_lost (fst (receive_loop ?st0 rs))"]
    by (simp add: get_stats_Inr)
qed

text \<open>
  Three packets received and one lost: 25 per cent.
\<close>

theorem get_stats_total_and_bounded_witness:
  "0 \<le> packets_received (init_receiver\<lparr>packets_received := 3, packets_lost := 1\<rparr>) \<and>
   0 \<le> packets_lost (init_receiver\<lparr>packets_received := 3, packets_lost := 1\<rparr>) \<and>
   (\<exists>s. get_stats (init_receiver\<lparr>packets_received := 3, packets_lost := 1\<rparr>) = Inr s \<and>
        loss_rate s = 25 \<and> 0 \<le> loss_rate s \<and> loss_rate s \<le> 100)"
  using get_stats_total_and_bounded
    [of "init_receiver\<lparr>packets_received := 3, packets_lost := 1\<rparr>"]
  by (simp add: get_stats_def init_receiver_def)

section \<open>Properties of the renderer\<close>

text \<open>The definitions needed to run the renderer on concrete input.\<close>

lemmas output_eval =
  frombuffer_def init_output_def max_buffer_def callback_def Let_def

lemma block_size_fits: "0 < BUFFER_FRAMES \<and> 2 * BUFFER_FRAMES \<le> max_buffer"
  by (simp add: BUFFER_FRAMES_def max_buffer_def)

lemma int16_samples_zeros: "int16_samples (replicate (2 * n) 0) = replicate n 0"
  by (induction n) simp_all

subsection \<open>The buffer ceiling\<close>

lemma write_audio_buffer:
  assumes "running st" and "data \<noteq> []" and "frombuffer data = Inr samples"
  shows "buffer (write_audio st data) =
           drop (length (buffer st) + length samples - max_buffer)
             (buffer st @ (if volume st \<noteq> 1 then map (apply_volume (volume st)) samples
                           else samples))"
  using assms by (simp add: write_audio_def Let_def)

lemma write_audio_buffer_length:
  assumes "running st" and "data \<noteq> []" and "frombuffer data = Inr samples"
  shows "length (buffer (write_audio st data)) =
           min max_buffer (length (buffer st) + length samples)"
proof -
  have "length (buffer (write_audio st data)) =
          length (buffer st) + length samples -
          (length (buffer st) + length samples - max_buffer)"
    using assms by (simp add: write_audio_buffer del: drop_append)
  then show ?thesis
    by arith
qed

lemma write_audio_noop:
  "\<not> running st \<or> data = [] \<or> frombuffer data = Inl e \<Longrightarrow> write_audio st data = st"
  by (auto simp: write_audio_def)

lemma write_audio_length:
  "length (buffer st) \<le> max_buffer \<Longrightarrow> length (buffer (write_audio st data)) \<le> max_buffer"
proof (cases "running st \<and> data \<noteq> []")
  case True
  assume le: "length (buffer st) \<le> max_buffer"
  show ?thesis
  proof (cases "frombuffer data")
    case (Inl e)
    then show ?thesis using le by (simp add: write_audio_def)
  next
    case (Inr samples)
    with True show ?thesis
      by (simp add: write_audio_buffer_length)
  qed
next
  case False
  assume "length (buffer st) \<le> max_buffer"
  with False show ?thesis
    by (auto simp: write_audio_noop)
qed

lemma callback_length:
  "length (buffer (fst (callback st frames))) \<le> length (buffer st)"
  by (simp add: callback_def Let_def)

lemma do_call_ceiling:
  assumes "length (buffer st) \<le> max_buffer"
  shows "length (buffer (do_call st c)) \<le> max_buffer"
proof (cases c)
  case (Write data)
  then show ?thesis using assms by (simp add: write_audio_length)
next
  case (Pull frames)
  then show ?thesis
    using assms callback_length [of st frames] by simp
next
  case (Start res)
  then show ?thesis using assms by (simp add: start_def Let_def split: open_result.split)
next
  case Stop
  then show ?thesis by (simp add: stop_def)
next
  case (SetVolume v)
  then show ?thesis using assms by (simp add: set_volume_def)
next
  case (SetOutputDevice d res)
  then show ?thesis
    using assms
    by (simp add: set_output_device_def start_def stop_def Let_def split: open_result.split)
qed

lemma do_calls_ceiling:
  "length (buffer st) \<le> max_buffer \<Longrightarrow> length (buffer (foldl do_call st calls)) \<le> max_buffer"
  by (induction calls arbitrary: st) (simp_all add: do_call_ceiling)

text \<open>
  Claim C2. Whatever calls are made on the renderer and in whatever order, the buffer
  never holds more than 7200 samples; a write keeps a buffer that is within the
  ceiling within it. A write that takes effect leaves exactly the last 7200 samples
  of the old buffer followed by the (volume-scaled) new samples, or all of them when
  they are fewer: what is dropped is dropped from the front, and what is kept are
  the most recently written samples.
\<close>

theorem buffer_ceiling:
  "length (buffer (foldl do_call init_output calls)) \<le> max_buffer \<and>
   (length (buffer st) \<le> max_buffer \<longrightarrow>
      length (buffer (write_audio st data)) \<le> max_buffer) \<and>
   (running st \<and> data \<noteq> [] \<and> frombuffer data = Inr samples \<longrightarrow>
      (let written = buffer st @ (if volume st \<noteq> 1 then map (apply_volume (volume st)) samples
                                  else samples)
       in buffer (write_audio st data) = drop (length written - max_buffer) written \<and>
          length (buffer (write_audio st data)) = min max_buffer (length written)))"
proof (intro conjI impI)
  show "length (buffer (foldl do_call init_output calls)) \<le> max_buffer"
    by (rule do_calls_ceiling) (simp add: init_output_def)
next
  assume "length (buffer st) \<le> max_buffer"
  then show "length (buffer (write_audio st data)) \<le> max_buffer"
    by (rule write_audio_length)
next
  assume h: "running st \<and> data \<noteq> [] \<and> frombuffer data = Inr samples"
  then have "length (buffer (write_audio st data)) =
               min max_buffer (length (buffer st) + length samples)"
    by (simp add: write_audio_buffer_length)
  moreover from h have "buffer (write_audio st data) =
           drop (length (buffer st) + length samples - max_buffer)
             (buffer st @ (if volume st \<noteq> 1 then map (apply_volume (volume st)) samples
                           else samples))"
    by (simp add: write_audio_buffer)
  ultimately show "let written = buffer st @ (if volume st \<noteq> 1 then map (apply_volume (volume st)) samples
                                  else samples)
       in buffer (write_audio st data) = drop (length written - max_buffer) written \<and>
          length (buffer (write_audio st data)) = min max_buffer (length written)"
    by (simp only: Let_def length_append length_map if_distrib [of length] if_cancel)
qed

text \<open>
  One sample written to a full buffer: the oldest sample goes, the new one is last.
\<close>

theorem buffer_ceiling_witness:
  "length (buffer (init_output\<lparr>running := True, buffer := replicate 7200 5\<rparr>)) \<le> max_buffer \<and>
   running (init_output\<lparr>running := True, buffer := replicate 7200 5\<rparr>) \<and>
   [1, 0 :: byte] \<noteq> [] \<and> frombuffer [1, 0] = Inr [1] \<and>
   buffer (write_audio (init_output\<lparr>running := True, buffer := replicate 7200 5\<rparr>) [1, 0]) =
     replicate 7199 5 @ [1] \<and>
   length (buffer (write_audio (init_output\<lparr>running := True, buffer := replicate 7200 5\<rparr>)
     [1, 0])) = 7200"
  using buffer_ceiling
    [of "[]" "init_output\<lparr>running := True, buffer := replicate 7200 5\<rparr>" "[1, 0]" "[1]"]
  by (simp add: output_eval)

subsection \<open>The pull callback\<close>

text \<open>
  Claim C4. When the buffer holds at least one sample and fewer than \<open>frames\<close>, the
  pull outputs the buffered samples followed by copies of the last of them, \<open>frames\<close>
  samples in all, empties the buffer and leaves the level as it was. When the buffer is
  empty, a pull of a block (\<open>frames > 0\<close>; the stream's block size is 1024) outputs
  zeros only and sets the level to 0.
\<close>

theorem callback_underfull:
  "(0 < length (buffer st) \<and> length (buffer st) < frames \<longrightarrow>
      snd (callback st frames) =
        buffer st @ replicate (frames - length (buffer st)) (last (buffer st)) \<and>
      length (snd (callback st frames)) = frames \<and>
      buffer (fst (callback st frames)) = [] \<and>
      current_level (fst (callback st frames)) = current_level st) \<and>
   (buffer st = [] \<and> 0 < frames \<longrightarrow>
      snd (callback st frames) = replicate frames 0 \<and>
      buffer (fst (callback st frames)) = [] \<and>
      current_level (fst (callback st frames)) = 0)"
  by (simp add: callback_def Let_def)

text \<open>
  Two samples for a block of five, and an empty buffer for a block of three.
\<close>

theorem callback_underfull_witness:
  "snd (callback (init_output\<lparr>running := True, buffer := [7, 9], current_level := 0.5\<rparr>) 5) =
     [7, 9, 9, 9, 9] \<and>
   buffer (fst (callback
     (init_output\<lparr>running := True, buffer := [7, 9], current_level := 0.5\<rparr>) 5)) = [] \<and>
   current_level (fst (callback
     (init_output\<lparr>running := True, buffer := [7, 9], current_level := 0.5\<rparr>) 5)) = 0.5 \<and>
   snd (callback (init_output\<lparr>running := True, current_level := 0.5\<rparr>) 3) = [0, 0, 0] \<and>
   current_level (fst (callback (init_output\<lparr>running := True, current_level := 0.5\<rparr>) 3)) = 0"
  using callback_underfull
      [of "init_output\<lparr>running := True, buffer := [7, 9], current_level := 0.5\<rparr>" 5]
    callback_underfull [of "init_output\<lparr>running := True, current_level := 0.5\<rparr>" 3]
  by (simp add: init_output_def eval_nat_numeral)

subsection \<open>Write followed by pull\<close>

lemma write_then_pull_within_ceiling:
  assumes "running st" and "buffer st = []" and "volume st = 1"
    and "frombuffer data = Inr samples" and "length samples = 2 * frames"
    and "2 * frames \<le> max_buffer"
  shows "snd (callback (write_audio st data) frames) = take frames samples \<and>
         buffer (fst (callback (write_audio st data) frames)) = drop frames samples"
proof (cases "data = []")
  case True
  with assms show ?thesis
    by (simp add: write_audio_noop callback_def frombuffer_def)
next
  case False
  with assms have "buffer (write_audio st data) = samples"
    by (simp add: write_audio_buffer)
  with assms show ?thesis
    by (simp add: callback_def Let_def)
qed

text \<open>
  Claim C7. On a running renderer with an empty buffer and volume 1.0, writing
  \<open>2 * frames\<close> samples and then pulling \<open>frames\<close> outputs the first half of the
  written samples unchanged and leaves the second half buffered. Here \<open>frames\<close> is
  the block size of the stream, \<open>BUFFER_FRAMES = 1024\<close>, the only size the device
  pulls with; the same holds for every block size whose double is within the
  7200-sample ceiling.
\<close>

theorem write_then_pull:
  assumes "running st" and "buffer st = []" and "volume st = 1"
    and "frombuffer data = Inr samples"
  shows "(length samples = 2 * BUFFER_FRAMES \<longrightarrow>
            snd (callback (write_audio st data) BUFFER_FRAMES) = take BUFFER_FRAMES samples \<and>
            buffer (fst (callback (write_audio st data) BUFFER_FRAMES)) =
              drop BUFFER_FRAMES samples) \<and>
         (length samples = 2 * frames \<and> 2 * frames \<le> max_buffer \<longrightarrow>
            snd (callback (write_audio st data) frames) = take frames samples \<and>
            buffer (fst (callback (write_audio st data) frames)) = drop frames samples)"
proof (intro conjI impI)
  assume "length samples = 2 * BUFFER_FRAMES"
  moreover have "2 * BUFFER_FRAMES \<le> max_buffer"
    using block_size_fits by simp
  ultimately have "snd (callback (write_audio st data) BUFFER_FRAMES) =
        take BUFFER_FRAMES samples \<and>
      buffer (fst (callback (write_audio st data) BUFFER_FRAMES)) = drop BUFFER_FRAMES samples"
    using assms by (intro write_then_pull_within_ceiling)
  then show "snd (callback (write_audio st data) BUFFER_FRAMES) = take BUFFER_FRAMES samples"
    and "buffer (fst (callback (write_audio st data) BUFFER_FRAMES)) =
           drop BUFFER_FRAMES samples"
    by simp_all
next
  assume "length samples = 2 * frames \<and> 2 * frames \<le> max_buffer"
  then have "snd (callback (write_audio st data) frames) = take frames samples \<and>
      buffer (fst (callback (write_audio st data) frames)) = drop frames samples"
    using assms by (intro write_then_pull_within_ceiling) simp_all
  then show "snd (callback (write_audio st data) frames) = take frames samples"
    and "buffer (fst (callback (write_audio st data) frames)) = drop frames samples"
    by simp_all
qed

text \<open>
  Two blocks of 1024 samples written, the first sample a 1 and the rest zeros, and one
  block pulled; and four samples written with a block of two pulled.
\<close>

theorem write_then_pull_witness:
  "running (init_output\<lparr>running := True\<rparr>) \<and>
   buffer (init_output\<lparr>running := True\<rparr>) = [] \<and>
   volume (init_output\<lparr>running := True\<rparr>) = 1 \<and>
   frombuffer (1 # 0 # replicate 4094 0) = Inr (1 # replicate 2047 0) \<and>
   length (1 # replicate 2047 (0 :: int16)) = 2 * BUFFER_FRAMES \<and>
   snd (callback (write_audio (init_output\<lparr>running := True\<rparr>) (1 # 0 # replicate 4094 0))
          BUFFER_FRAMES) = 1 # replicate 1023 0 \<and>
   buffer (fst (callback (write_audio (init_output\<lparr>running := True\<rparr>)
          (1 # 0 # replicate 4094 0)) BUFFER_FRAMES)) = replicate 1024 0 \<and>
   frombuffer [1, 0, 2, 0, 3, 0, 4, 0] = Inr [1, 2, 3, 4] \<and>
   length [1, 2, 3, 4 :: int16] = 2 * 2 \<and> 2 * 2 \<le> max_buffer \<and>
   snd (callback (write_audio (init_output\<lparr>running := True\<rparr>) [1, 0, 2, 0, 3, 0, 4, 0]) 2) =
     [1, 2] \<and>
   buffer (fst (callback (write_audio (init_output\<lparr>running := True\<rparr>)
     [1, 0, 2, 0, 3, 0, 4, 0]) 2)) = [3, 4]"
proof -
  have z: "int16_samples (replicate 4094 0) = replicate 2047 0"
    using int16_samples_zeros [of 2047] by simp
  have tk: "take 1024 (1 # replicate 2047 (0 :: int16)) = 1 # replicate 1023 0"
    by (simp add: take_Cons')
  have dr: "drop 1024 (1 # replicate 2047 (0 :: int16)) = replicate 1024 0"
    by (simp add: drop_Cons')
  show ?thesis
    using write_then_pull
        [of "init_output\<lparr>running := True\<rparr>" "1 # 0 # replicate 4094 0"
            "1 # replicate 2047 0" 2]
      write_then_pull
        [of "init_output\<lparr>running := True\<rparr>" "[1, 0, 2, 0, 3, 0, 4, 0]" "[1, 2, 3, 4]" 2]
    by (simp add: z tk dr frombuffer_def init_output_def max_buffer_def BUFFER_FRAMES_def)
qed

subsection \<open>Volume\<close>

lemma sint_int16_range: "- 32768 \<le> sint (s :: int16) \<and> sint s \<le> 32767"
  using sint_ge [of s] sint_lt [of s] by simp

lemma sint_word_of_int16:
  assumes "- 32768 \<le> k" and "k \<le> 32767"
  shows "sint (word_of_int k :: int16) = k"
proof -
  have "(k + 32768) mod 65536 = k + 32768"
    using assms by (intro mod_pos_pos_trivial) simp_all
  then show ?thesis
    by (simp add: int_word_sint)
qed

lemma truncate_of_int [simp]: "truncate (real_of_int k) = k"
  by (simp add: truncate_def)

lemma pow2_powr: "pow2 n = 2 powr real_of_int n"
  by (simp add: pow2_def powr_real_of_int field_simps)

lemma floor_log2_eq:
  assumes "pow2 e \<le> x" and "x < pow2 (e + 1)"
  shows "\<lfloor>log 2 x\<rfloor> = e"
proof -
  have "0 < pow2 e"
    by (simp add: pow2_def)
  with assms(1) have "0 < x"
    by simp
  then show ?thesis
    using assms by (simp add: floor_log_eq_powr_iff pow2_powr)
qed

lemma round_half_even_of_int [simp]: "round_half_even (real_of_int m) = m"
  by (simp add: round_half_even_def)

lemma float32_0 [simp]: "float32 0 = 0"
  by (simp add: float32_def)

lemma float32_eval:
  assumes "x \<noteq> 0" and "pow2 e \<le> \<bar>x\<bar>" and "\<bar>x\<bar> < pow2 (e + 1)" and "- 126 \<le> e"
  shows "float32 x = real_of_int (round_half_even (x / pow2 (e - 23))) * pow2 (e - 23)"
  using assms floor_log2_eq [OF assms(2,3)] by (simp add: float32_def Let_def)

lemma float32_of_int:
  assumes "\<bar>k\<bar> < 2 ^ 24"
  shows "float32 (real_of_int k) = real_of_int k"
proof (cases "k = 0")
  case True
  then show ?thesis by simp
next
  case False
  define x where "x = real_of_int k"
  define e where "e = \<lfloor>log 2 \<bar>x\<bar>\<rfloor>"
  have x1: "1 \<le> \<bar>x\<bar>"
  proof -
    from False have "1 \<le> \<bar>k\<bar>"
      by simp
    then have "real_of_int 1 \<le> real_of_int \<bar>k\<bar>"
      by (simp only: of_int_le_iff)
    then show ?thesis
      by (simp add: x_def)
  qed
  have x24: "\<bar>x\<bar> < 2 ^ 24"
  proof -
    have "real_of_int \<bar>k\<bar> < real_of_int (2 ^ 24)"
      using assms by (simp only: of_int_less_iff)
    then show ?thesis by (simp add: x_def)
  qed
  have "0 \<le> log 2 \<bar>x\<bar>"
    using x1 by simp
  then have e0: "0 \<le> e"
    by (simp add: e_def)
  have "log 2 \<bar>x\<bar> < 24"
    using x1 x24 by (simp add: log_less_iff)
  then have e23: "e \<le> 23"
    unfolding e_def by linarith
  define n where "n = nat (23 - e)"
  have ulp: "pow2 (e - 23) = 1 / 2 ^ n"
  proof (cases "e = 23")
    case True
    then show ?thesis by (simp add: pow2_def n_def)
  next
    case False
    with e23 have "e - 23 < 0" by simp
    then show ?thesis
      by (simp add: pow2_def n_def)
  qed
  have "x / pow2 (e - 23) = real_of_int (k * 2 ^ n)"
    by (simp add: ulp x_def)
  then have "round_half_even (x / pow2 (e - 23)) = k * 2 ^ n"
    by (simp only: round_half_even_of_int)
  moreover have "float32 x =
      real_of_int (round_half_even (x / pow2 (e - 23))) * pow2 (e - 23)"
  proof -
    have m: "max \<lfloor>log 2 \<bar>x\<bar>\<rfloor> (- 126) = e"
      using e0 by (simp add: e_def)
    have "x \<noteq> 0"
      using False by (simp add: x_def)
    then show ?thesis
      unfolding float32_def Let_def m by simp
  qed
  ultimately have "float32 x = real_of_int (k * 2 ^ n) * (1 / 2 ^ n)"
    by (simp only: ulp)
  then show ?thesis
    by (simp add: x_def)
qed


lemma apply_volume_0 [simp]: "apply_volume 0 s = 0"
  by (simp add: apply_volume_def clip_def truncate_def)

lemma map_apply_volume_0: "map (apply_volume 0) samples = replicate (length samples) 0"
  by (induction samples) simp_all

lemma float32_2: "float32 2 = 2"
  using float32_of_int [of 2] by simp

lemma apply_volume_2:
  "apply_volume 2 s = word_of_int (min (max (sint s * 2) (- 32768)) 32767)"
proof -
  have "\<bar>sint s * 2\<bar> < 2 ^ 24"
    using sint_int16_range [of s] by (simp add: abs_less_iff)
  then have "float32 (real_of_int (sint s * 2)) = real_of_int (sint s * 2)"
    by (rule float32_of_int)
  then have "float32 (real_of_int (sint s) * float32 2) = real_of_int (sint s * 2)"
    by (simp add: float32_2)
  moreover have "clip (real_of_int (sint s * 2)) (- 32768) 32767 =
          real_of_int (min (max (sint s * 2) (- 32768)) 32767)"
    by (simp add: clip_def of_int_max of_int_min)
  ultimately show ?thesis
    by (simp only: apply_volume_def truncate_of_int)
qed

lemma float32_013: "float32 (13 / 100) = 8724152 / 67108864"
proof -
  have "float32 (13 / 100) =
          real_of_int (round_half_even (13 / 100 / pow2 (- 3 - 23))) * pow2 (- 3 - 23)"
    by (rule float32_eval) (simp_all add: pow2_def)
  also have "\<dots> = 8724152 / 67108864"
    by (simp add: pow2_def round_half_even_def)
  finally show ?thesis .
qed

text \<open>
  A volume that is not a binary fraction: \<open>0.13\<close> rounds to \<open>8724152 / 2^26\<close>, the
  product with 7800 rounds to just below 1014, and the sample buffered is 1013.
\<close>

lemma apply_volume_013: "sint (apply_volume (13 / 100) 7800) = 1013"
proof -
  have "float32 (7800 * (8724152 / 67108864)) =
          real_of_int (round_half_even (7800 * (8724152 / 67108864) / pow2 (9 - 23))) *
          pow2 (9 - 23)"
    by (rule float32_eval) (simp_all add: pow2_def)
  also have "\<dots> = 16613375 / 16384"
    by (simp add: pow2_def round_half_even_def)
  finally have "float32 (7800 * (8724152 / 67108864)) = 16613375 / 16384" .
  moreover have "real_of_int (sint (7800 :: int16)) = 7800"
    by simp
  ultimately have "apply_volume (13 / 100) 7800 =
      word_of_int (truncate (clip (16613375 / 16384) (- 32768) 32767))"
    by (simp only: apply_volume_def float32_013)
  then show ?thesis
    by (simp add: clip_def truncate_def)
qed

lemma sint_apply_volume_2:
  "sint (apply_volume 2 s) = min (max (sint s * 2) (- 32768)) 32767"
  unfolding apply_volume_2 by (rule sint_word_of_int16) simp_all

lemma sint_double_wraps:
  assumes "sint (s :: int16) > 16383"
  shows "sint (2 * s) = 2 * sint s - 65536"
proof -
  have "2 * s = word_of_int (2 * sint s)"
    by simp
  moreover have "(2 * sint s + 32768) mod 65536 = 2 * sint s + 32768 - 65536"
  proof -
    have "(2 * sint s - 32768) mod 65536 = 2 * sint s - 32768"
      using assms sint_int16_range [of s] by (intro mod_pos_pos_trivial) simp_all
    moreover have "2 * sint s + 32768 = (2 * sint s - 32768) + 65536"
      by simp
    ultimately have "(2 * sint s + 32768) mod 65536 = 2 * sint s - 32768"
      by (simp only: mod_add_self2)
    then show ?thesis
      by simp
  qed
  ultimately show ?thesis
    by (simp only: int_word_sint) simp
qed

text \<open>
  Claim C9. \<^verbatim>\<open>set_volume\<close> clamps: it stores 0 for an input below 0, 2 for an input
  above 2 and the input itself in between, so the stored volume is always between 0
  and 2, and it changes nothing else. A write at volume 0.0 appends only zeros to the
  buffer, whatever the input. A write at volume 2.0 appends each sample doubled and
  clipped to the signed 16-bit range: a sample above half scale becomes 32767, where
  doubling within 16 bits would wrap to a negative value, and one below minus half
  scale becomes \<open>-32768\<close>.
\<close>

theorem volume_handling:
  "set_volume st v = st\<lparr>volume := (if v < 0 then 0 else if 2 < v then 2 else v)\<rparr> \<and>
   (v < 0 \<longrightarrow> volume (set_volume st v) = 0) \<and>
   (2 < v \<longrightarrow> volume (set_volume st v) = 2) \<and>
   (0 \<le> v \<and> v \<le> 2 \<longrightarrow> volume (set_volume st v) = v) \<and>
   0 \<le> volume (set_volume st v) \<and> volume (set_volume st v) \<le> 2 \<and>
   (running st \<and> data \<noteq> [] \<and> frombuffer data = Inr samples \<and> volume st = 0 \<longrightarrow>
      buffer (write_audio st data) =
        drop (length (buffer st) + length samples - max_buffer)
          (buffer st @ replicate (length samples) 0)) \<and>
   (running st \<and> data \<noteq> [] \<and> frombuffer data = Inr samples \<and> volume st = 2 \<longrightarrow>
      buffer (write_audio st data) =
        drop (length (buffer st) + length samples - max_buffer)
          (buffer st @ map (apply_volume 2) samples)) \<and>
   sint (apply_volume 2 s) = min (max (sint s * 2) (- 32768)) 32767 \<and>
   (sint s > 16383 \<longrightarrow>
      sint (apply_volume 2 s) = 32767 \<and> sint (2 * s) = 2 * sint s - 65536) \<and>
   (sint s < - 16384 \<longrightarrow> sint (apply_volume 2 s) = - 32768)"
proof (intro conjI impI)
  show "set_volume st v = st\<lparr>volume := (if v < 0 then 0 else if 2 < v then 2 else v)\<rparr>"
    by (simp add: set_volume_def)
  show "volume (set_volume st v) = 0" if "v < 0"
    using that by (simp add: set_volume_def)
  show "volume (set_volume st v) = 2" if "2 < v"
    using that by (simp add: set_volume_def)
  show "0 \<le> volume (set_volume st v)" "volume (set_volume st v) \<le> 2"
    by (simp_all add: set_volume_def)
  show "volume (set_volume st v) = v" if "0 \<le> v \<and> v \<le> 2"
    using that by (simp add: set_volume_def)
  show "buffer (write_audio st data) =
        drop (length (buffer st) + length samples - max_buffer)
          (buffer st @ replicate (length samples) 0)"
    if "running st \<and> data \<noteq> [] \<and> frombuffer data = Inr samples \<and> volume st = 0"
    using that by (simp add: write_audio_buffer map_apply_volume_0 del: drop_append)
  show "buffer (write_audio st data) =
        drop (length (buffer st) + length samples - max_buffer)
          (buffer st @ map (apply_volume 2) samples)"
    if "running st \<and> data \<noteq> [] \<and> frombuffer data = Inr samples \<and> volume st = 2"
    using that by (simp add: write_audio_buffer)
  show "sint (apply_volume 2 s) = min (max (sint s * 2) (- 32768)) 32767"
    by (rule sint_apply_volume_2)
  show "sint (apply_volume 2 s) = 32767" if "sint s > 16383"
    using that by (simp add: sint_apply_volume_2)
  show "sint (2 * s) = 2 * sint s - 65536" if "sint s > 16383"
    using that by (rule sint_double_wraps)
  show "sint (apply_volume 2 s) = - 32768" if "sint s < - 16384"
    using that by (simp add: sint_apply_volume_2)
qed

text \<open>
  Volumes 5, \<open>-3\<close> and 0.5 set, and the sample 20000 written at volume 2.0 and at
  volume 0.0.
\<close>

theorem volume_handling_witness:
  "volume (set_volume init_output 5) = 2 \<and>
   volume (set_volume init_output (- 3)) = 0 \<and>
   volume (set_volume init_output 0.5) = 0.5 \<and>
   running (init_output\<lparr>running := True, volume := 2\<rparr>) \<and>
   [0x20, 0x4E :: byte] \<noteq> [] \<and> frombuffer [0x20, 0x4E] = Inr [20000] \<and>
   volume (init_output\<lparr>running := True, volume := 2\<rparr>) = 2 \<and>
   sint (20000 :: int16) > 16383 \<and>
   map sint (buffer (write_audio (init_output\<lparr>running := True, volume := 2\<rparr>) [0x20, 0x4E])) =
     [32767] \<and>
   volume (set_volume init_output 0) = 0 \<and>
   buffer (write_audio (set_volume (init_output\<lparr>running := True\<rparr>) 0) [0x20, 0x4E]) = [0] \<and>
   sint (- 20000 :: int16) < - 16384 \<and> sint (apply_volume 2 (- 20000)) = - 32768"
  using volume_handling
      [where st = "init_output\<lparr>running := True, volume := 2\<rparr>" and v = 5
         and data = "[0x20, 0x4E]" and samples = "[20000]" and s = 20000]
    volume_handling
      [where st = "set_volume (init_output\<lparr>running := True\<rparr>) 0" and v = "- 3"
         and data = "[0x20, 0x4E]" and samples = "[20000]" and s = "- 20000"]
    volume_handling [where st = init_output and v = "0.5"]
  by (simp add: frombuffer_def init_output_def max_buffer_def set_volume_def)

end
